theory Spec2Isabelle
  imports Complex_Main "HOL-Library.AList" "HOL-Library.Char_ord" "HOL-Library.List_Lexorder"
begin

section \<open>The AST of Rinha (main.py, section AST)\<close>

text \<open>
  Every node of the source carries a \<open>location\<close> (class \<open>Loc\<close>: start, end, filename).
  Neither \<open>__str__\<close> nor \<open>evaluate\<close> reads it, and the runtime values do not hold it, so
  the embedding leaves the field out. A \<open>Symbol\<close> is then its \<open>text\<close> alone.
\<close>

type_synonym Symbol = string

text \<open>class \<open>Operator\<close>: token, precedence, assoc (default \<open>True\<close>).\<close>

record Operator =
  token :: string
  precedence :: int
  assoc :: bool

text \<open>The enum \<open>BinaryOp\<close>; \<open>op_value\<close> is the \<open>.value\<close> of a member.\<close>

datatype BinaryOp = ADD | SUB | MUL | DIV | REM | EQ | NEQ | LT | GT | LTE | GTE | AND | OR | NOT

fun op_value :: "BinaryOp \<Rightarrow> Operator" where
  "op_value ADD = \<lparr>token = ''+'', precedence = 30, assoc = True\<rparr>"
| "op_value SUB = \<lparr>token = ''-'', precedence = 30, assoc = True\<rparr>"
| "op_value MUL = \<lparr>token = ''*'', precedence = 40, assoc = True\<rparr>"
| "op_value DIV = \<lparr>token = ''/'', precedence = 40, assoc = True\<rparr>"
| "op_value REM = \<lparr>token = ''%'', precedence = 40, assoc = True\<rparr>"
| "op_value EQ = \<lparr>token = ''=='', precedence = 20, assoc = False\<rparr>"
| "op_value NEQ = \<lparr>token = ''!='', precedence = 20, assoc = False\<rparr>"
| "op_value LT = \<lparr>token = ''<'', precedence = 20, assoc = True\<rparr>"
| "op_value GT = \<lparr>token = ''>'', precedence = 20, assoc = True\<rparr>"
| "op_value LTE = \<lparr>token = ''<='', precedence = 20, assoc = True\<rparr>"
| "op_value GTE = \<lparr>token = ''>='', precedence = 20, assoc = True\<rparr>"
| "op_value AND = \<lparr>token = ''&'', precedence = 10, assoc = True\<rparr>"
| "op_value OR = \<lparr>token = ''|'', precedence = 5, assoc = True\<rparr>"
| "op_value NOT = \<lparr>token = ''!'', precedence = 25, assoc = True\<rparr>"

text \<open>
  The subclasses of \<open>Term\<close>, in the order of \<open>term_classes\<close>. \<open>Let'\<close>, \<open>If'\<close> and \<open>Int'\<close> are the
  classes \<open>Let\<close>, \<open>If\<close> and \<open>Int\<close> (the plain names belong to HOL).
\<close>

datatype Term =
    Let' Symbol Term Term
  | Function Term "Symbol list"
  | If' Term Term Term
  | Binary Term BinaryOp Term
  | Call Term "Term list"
  | Print Term
  | Var string
  | Int' int
  | Str string

section \<open>Values (main.py, section Values)\<close>

text \<open>
  \<open>Literal.x\<close> has the type \<open>int | str | bool\<close>. In Python \<open>bool\<close> is a subclass of
  \<open>int\<close>: the class pattern \<open>int()\<close> matches \<open>True\<close> and \<open>False\<close>, which count as 1 and 0
  in arithmetic and comparisons.
\<close>

datatype scalar = IntX int | StrX string | BoolX bool

text \<open>
  A \<open>Closure\<close> holds the fields of its \<open>Function\<close> term (value, parameters) and an
  environment. \<open>Let\<close> builds a cyclic object: a closure whose environment binds a name to
  the closure itself. A datatype has no cycles, so the closure keeps the dictionary as it
  was before the self-reference was stored, and the name under which it was stored
  (\<open>None\<close> for a closure fresh from a \<open>Function\<close> term); \<open>closure_env\<close> below stores the
  closure into that dictionary again, which unfolds the cycle by one step on demand.
  An \<open>Env\<close> is its \<open>values\<close> dictionary, kept in insertion order as Python does.
\<close>

datatype Value =
    Literal scalar
  | Closure Term "Symbol list" "(string \<times> Value) list" "string option"

type_synonym Env = "(string \<times> Value) list"

definition global_env :: Env where
  "global_env = [(''true'', Literal (BoolX True)), (''false'', Literal (BoolX False))]"

text \<open>\<open>Env.with_values\<close>: copy the dictionary, then \<open>update\<close> it with each item of \<open>extra\<close>.\<close>

definition with_values :: "Env \<Rightarrow> (string \<times> Value) list \<Rightarrow> Env" where
  "with_values env extra = fold (\<lambda>(k, v). AList.update k v) extra env"

fun closure_env :: "Value \<Rightarrow> Env" where
  "closure_env (Closure f ps e None) = e"
| "closure_env (Closure f ps e (Some name)) = AList.update name (Closure f ps e (Some name)) e"
| "closure_env (Literal x) = []"

section \<open>What the code takes from the Python runtime\<close>

text \<open>
  \<open>repr\<close> is the builtin on strings and \<open>indent\<close> is \<open>textwrap.indent\<close>; both are
  library code and are parameters here. \<open>global_args\<close> is \<open>str\<close> of the module-level
  name \<open>args\<close>, which the source binds only under \<open>if __name__ == "__main__"\<close>: it is
  \<open>None\<close> when the module is imported. \<open>id_of\<close> is the builtin \<open>id\<close> on closure objects, an
  address chosen by the allocator of the run.
\<close>

record host =
  repr :: "string \<Rightarrow> string"
  indent :: "string \<Rightarrow> string \<Rightarrow> string"
  global_args :: "string option"
  id_of :: "Value \<Rightarrow> nat"

definition newline :: string where
  "newline = [CHR 0x0A]"

definition quote :: string where
  "quote = [CHR 0x27]"

text \<open>\<open>str\<close> of a non-negative int, then of any int; \<open>hex\<close> of a non-negative int.\<close>

fun digits :: "nat \<Rightarrow> string" where
  "digits n = (if n < 10 then [''0123456789'' ! n]
               else digits (n div 10) @ [''0123456789'' ! (n mod 10)])"

definition str_int :: "int \<Rightarrow> string" where
  "str_int i = (if i < 0 then ''-'' @ digits (nat (- i)) else digits (nat i))"

fun hex_digits :: "nat \<Rightarrow> string" where
  "hex_digits n = (if n < 16 then [''0123456789abcdef'' ! n]
                   else hex_digits (n div 16) @ [''0123456789abcdef'' ! (n mod 16)])"

definition hex :: "nat \<Rightarrow> string" where
  "hex n = ''0x'' @ hex_digits n"

text \<open>\<open>sep.join(xs)\<close>\<close>

fun join :: "string \<Rightarrow> string list \<Rightarrow> string" where
  "join sep [] = []"
| "join sep [x] = x"
| "join sep (x # y # ys) = x @ sep @ join sep (y # ys)"

section \<open>The pretty printer: the \<open>__str__\<close> methods of the AST\<close>

fun is_Var :: "Term \<Rightarrow> bool" where
  "is_Var (Var text) = True"
| "is_Var t = False"

text \<open>\<open>self.lhs.op.value.precedence if isinstance(self.lhs, Binary) else 99\<close>\<close>

fun side_precedence :: "Term \<Rightarrow> int" where
  "side_precedence (Binary l b r) = precedence (op_value b)"
| "side_precedence t = 99"

fun str_Term :: "host \<Rightarrow> Term \<Rightarrow> string" where
  "str_Term h (Let' name val next) =
     ''let '' @ name @ '' = '' @ str_Term h val @ '';'' @ newline @ str_Term h next"
| "str_Term h (Function val parameters) =
     (let v = indent h (str_Term h val) ''  '';
          params = join '', '' parameters
      in ''fn ('' @ params @ '') => {'' @ newline @ v @ newline @ ''}'')"
| "str_Term h (If' condition then' otherwise) =
     (let t = indent h (str_Term h then') ''  '';
          e = indent h (str_Term h otherwise) ''  ''
      in ''if '' @ str_Term h condition @ '' {'' @ newline @ t @ newline
         @ ''} else {'' @ newline @ e @ newline @ ''}'')"
| "str_Term h (Binary lhs b rhs) =
     (let self_precedence = precedence (op_value b);
          lhs_precedence = side_precedence lhs;
          rhs_precedence = side_precedence rhs;
          l = str_Term h lhs;
          l = (if lhs_precedence < self_precedence then ''('' @ l @ '')'' else l);
          r = str_Term h rhs;
          r = (if rhs_precedence < self_precedence then ''('' @ r @ '')'' else r)
      in l @ '' '' @ token (op_value b) @ '' '' @ r)"
| "str_Term h (Call callee arguments) =
     (let c = str_Term h callee;
          c = (if \<not> is_Var callee then ''('' @ c @ '')'' else c);
          as = join '', '' (map (str_Term h) arguments)
      in c @ ''('' @ as @ '')'')"
| "str_Term h (Print val) = ''print ('' @ str_Term h val @ '')''"
| "str_Term h (Var text) = text"
| "str_Term h (Int' val) = str_int val"
| "str_Term h (Str val) = repr h val"

section \<open>\<open>str\<close> of a value\<close>

text \<open>
  The exceptions a run can end with: the interpreter's own \<open>ExecutionError\<close> with its
  message, and two exceptions of Python itself, \<open>ZeroDivisionError\<close> (from \<open>//\<close> and
  \<open>%\<close>) and \<open>NameError\<close> with the name that is not defined. The recursion limit of the
  host is not modelled.
\<close>

datatype error = ExecutionError string | ZeroDivisionError | NameError string

text \<open>\<open>Literal.__str__\<close> is \<open>str(self.x)\<close>.\<close>

fun str_scalar :: "scalar \<Rightarrow> string" where
  "str_scalar (IntX i) = str_int i"
| "str_scalar (StrX s) = s"
| "str_scalar (BoolX b) = (if b then ''True'' else ''False'')"

text \<open>
  \<open>Closure.__str__\<close>: \<open>ptr = hex(id(self))[-6:]\<close>, then an f-string that reads the name
  \<open>args\<close>. No local or parameter has that name, so Python looks it up among the globals
  of the module.
\<close>

definition str_Closure :: "host \<Rightarrow> Value \<Rightarrow> error + string" where
  "str_Closure h self =
     (let s = hex (id_of h self);
          ptr = drop (length s - 6) s
      in case global_args h of
           None \<Rightarrow> Inl (NameError ''args'')
         | Some args \<Rightarrow> Inr (''<Closure#'' @ ptr @ '' fn ('' @ args @ '')>''))"

fun str_Value :: "host \<Rightarrow> Value \<Rightarrow> error + string" where
  "str_Value h (Literal x) = Inr (str_scalar x)"
| "str_Value h (Closure f ps e s) = str_Closure h (Closure f ps e s)"

section \<open>The interpreter\<close>

subsection \<open>The operator table of \<open>evaluate\<close> (the second \<open>match\<close> of the \<open>Binary\<close> case)\<close>

text \<open>The class patterns \<open>int()\<close>, \<open>str()\<close> and \<open>bool()\<close> with the value they bind.\<close>

fun as_int :: "scalar \<Rightarrow> int option" where
  "as_int (IntX i) = Some i"
| "as_int (BoolX b) = Some (if b then 1 else 0)"
| "as_int (StrX s) = None"

fun as_str :: "scalar \<Rightarrow> string option" where
  "as_str (StrX s) = Some s"
| "as_str x = None"

fun as_bool :: "scalar \<Rightarrow> bool option" where
  "as_bool (BoolX b) = Some b"
| "as_bool x = None"

definition on_ints :: "scalar \<Rightarrow> scalar \<Rightarrow> (int \<Rightarrow> int \<Rightarrow> 'a) \<Rightarrow> 'a option" where
  "on_ints l r f = (case (as_int l, as_int r) of (Some a, Some b) \<Rightarrow> Some (f a b) | _ \<Rightarrow> None)"

definition on_strs :: "scalar \<Rightarrow> scalar \<Rightarrow> (string \<Rightarrow> string \<Rightarrow> 'a) \<Rightarrow> 'a option" where
  "on_strs l r f = (case (as_str l, as_str r) of (Some a, Some b) \<Rightarrow> Some (f a b) | _ \<Rightarrow> None)"

definition on_bools :: "scalar \<Rightarrow> scalar \<Rightarrow> (bool \<Rightarrow> bool \<Rightarrow> 'a) \<Rightarrow> 'a option" where
  "on_bools l r f = (case (as_bool l, as_bool r) of (Some a, Some b) \<Rightarrow> Some (f a b) | _ \<Rightarrow> None)"

text \<open>
  \<open>lhs == rhs\<close> on two \<open>Literal\<close>s is the \<open>__eq__\<close> that attrs generates: the classes are
  the same, so it compares the tuples \<open>(lhs.x,)\<close> and \<open>(rhs.x,)\<close>, that is \<open>lhs.x == rhs.x\<close>
  in Python. A string equals only an equal string; ints and bools compare as numbers.
\<close>

fun py_eq :: "scalar \<Rightarrow> scalar \<Rightarrow> bool" where
  "py_eq (StrX s) (StrX t) = (s = t)"
| "py_eq (StrX s) y = False"
| "py_eq x (StrX t) = False"
| "py_eq x y = (as_int x = as_int y)"

text \<open>
  One row for each \<open>case\<close> of the \<open>match\<close>, in the order of the source: the token, and the
  outcome when the operand patterns match (\<open>None\<close> when they do not). \<open>//\<close> and \<open>%\<close> raise
  \<open>ZeroDivisionError\<close> in Python when the right operand is 0.
\<close>

definition op_cases :: "scalar \<Rightarrow> scalar \<Rightarrow> (string \<times> (error + scalar) option) list" where
  "op_cases l r =
    [(''+'', on_ints l r (\<lambda>a b. Inr (IntX (a + b)))),
     (''+'', on_strs l r (\<lambda>a b. Inr (StrX (a @ b)))),
     (''-'', on_ints l r (\<lambda>a b. Inr (IntX (a - b)))),
     (''*'', on_ints l r (\<lambda>a b. Inr (IntX (a * b)))),
     (''/'', on_ints l r (\<lambda>a b. if b = 0 then Inl ZeroDivisionError else Inr (IntX (a div b)))),
     (''%'', on_ints l r (\<lambda>a b. if b = 0 then Inl ZeroDivisionError else Inr (IntX (a mod b)))),
     (''=='', Some (Inr (BoolX (py_eq l r)))),
     (''!='', Some (Inr (BoolX (\<not> py_eq l r)))),
     (''<'', on_ints l r (\<lambda>a b. Inr (BoolX (a < b)))),
     (''<'', on_strs l r (\<lambda>a b. Inr (BoolX (a < b)))),
     (''>'', on_ints l r (\<lambda>a b. Inr (BoolX (a > b)))),
     (''>'', on_strs l r (\<lambda>a b. Inr (BoolX (a > b)))),
     (''<='', on_ints l r (\<lambda>a b. Inr (BoolX (a \<le> b)))),
     (''<='', on_strs l r (\<lambda>a b. Inr (BoolX (a \<le> b)))),
     (''>='', on_ints l r (\<lambda>a b. Inr (BoolX (a \<ge> b)))),
     (''>='', on_strs l r (\<lambda>a b. Inr (BoolX (a \<ge> b)))),
     (''&'', on_bools l r (\<lambda>a b. Inr (BoolX (a \<and> b)))),
     (''|'', on_bools l r (\<lambda>a b. Inr (BoolX (a \<or> b))))]"

text \<open>The first row that matches decides; \<open>case _\<close> raises \<open>ExecutionError\<close>.\<close>

fun first_case :: "string \<Rightarrow> (string \<times> (error + scalar) option) list \<Rightarrow> (error + scalar) option" where
  "first_case tok [] = None"
| "first_case tok ((t, res) # rows) =
     (if t = tok \<and> res \<noteq> None then res else first_case tok rows)"

definition operate :: "BinaryOp \<Rightarrow> scalar \<Rightarrow> scalar \<Rightarrow> error + scalar" where
  "operate b l r =
     (case first_case (token (op_value b)) (op_cases l r) of
        Some res \<Rightarrow> res
      | None \<Rightarrow> Inl (ExecutionError (''Invalid operands for '' @ quote @ token (op_value b) @ quote
                 @ '': '' @ str_scalar l @ '', '' @ str_scalar r)))"

text \<open>
  The first \<open>match\<close> of the \<open>Binary\<close> case raises with the same message when an operand is
  not a \<open>Literal\<close>; the f-string calls \<open>str\<close> on both operands, left first.
\<close>

definition invalid_operands :: "host \<Rightarrow> BinaryOp \<Rightarrow> Value \<Rightarrow> Value \<Rightarrow> error" where
  "invalid_operands h b lhs rhs =
     (case str_Value h lhs of
        Inl e \<Rightarrow> e
      | Inr l \<Rightarrow>
          (case str_Value h rhs of
             Inl e \<Rightarrow> e
           | Inr r \<Rightarrow> ExecutionError (''Invalid operands for '' @ quote @ token (op_value b) @ quote
                        @ '': '' @ l @ '', '' @ r)))"

subsection \<open>\<open>evaluate\<close>\<close>

text \<open>
  A run of \<open>evaluate\<close> prints, and then returns, raises or does neither (the object
  program may loop). The outcome is \<open>None\<close> when the call does not finish within the
  given depth of nested calls, and otherwise the text printed so far (after the text
  \<open>out\<close> that was already on the output) with the exception raised (\<open>Inl\<close>) or the value
  returned (\<open>Inr\<close>).
\<close>

type_synonym 'a outcome = "(string \<times> (error + 'a)) option"

definition and_then :: "'a outcome \<Rightarrow> (string \<Rightarrow> 'a \<Rightarrow> 'b outcome) \<Rightarrow> 'b outcome" where
  "and_then m f =
     (case m of
        None \<Rightarrow> None
      | Some (out, Inl e) \<Rightarrow> Some (out, Inl e)
      | Some (out, Inr x) \<Rightarrow> f out x)"

text \<open>
  The generator \<open>values\<close> of the \<open>Call\<close> case, as \<open>zip\<close> consumes it: the arguments are
  evaluated from left to right, and the \<open>Env\<close> of each result is dropped.
\<close>

fun values_of :: "(Term \<Rightarrow> string \<Rightarrow> (Env \<times> Value) outcome) \<Rightarrow> Term list \<Rightarrow> string
    \<Rightarrow> (Value list) outcome" where
  "values_of ev [] out = Some (out, Inr [])"
| "values_of ev (arg # arguments) out =
     and_then (ev arg out) (\<lambda>out (_, v).
     and_then (values_of ev arguments out) (\<lambda>out vs. Some (out, Inr (v # vs))))"

text \<open>A dictionary display or comprehension: the items are stored one after the other.\<close>

definition dict_of :: "(string \<times> Value) list \<Rightarrow> (string \<times> Value) list" where
  "dict_of items = fold (\<lambda>(k, v). AList.update k v) items []"

primrec evaluate :: "nat \<Rightarrow> host \<Rightarrow> Env \<Rightarrow> Term \<Rightarrow> string \<Rightarrow> (Env \<times> Value) outcome" where
  "evaluate 0 h env t out = None"
| "evaluate (Suc n) h env t out =
    (case t of
       Int' val \<Rightarrow> Some (out, Inr (env, Literal (IntX val)))
     | Str val \<Rightarrow> Some (out, Inr (env, Literal (StrX val)))
     | Var text \<Rightarrow>
         (case map_of env text of
            None \<Rightarrow> Some (out, Inl (ExecutionError (''unknown variable '' @ quote @ text @ quote)))
          | Some v \<Rightarrow> Some (out, Inr (env, v)))
     | Let' name val next \<Rightarrow>
         and_then (evaluate n h env val out) (\<lambda>out (_, v).
           let next_env = with_values env (dict_of [(name, v)])
           in (case v of
                 Closure f ps e s \<Rightarrow>
                   let new_val = Closure f ps next_env (Some name);
                       next_env = AList.update name new_val next_env
                   in evaluate n h next_env next out
               | Literal x \<Rightarrow> evaluate n h next_env next out))
     | Function val parameters \<Rightarrow> Some (out, Inr (env, Closure val parameters env None))
     | If' condition then' otherwise \<Rightarrow>
         and_then (evaluate n h env condition out) (\<lambda>out (_, cond).
           case cond of
             Literal (BoolX True) \<Rightarrow> evaluate n h env then' out
           | Literal (BoolX False) \<Rightarrow> evaluate n h env otherwise out
           | _ \<Rightarrow> Some (out, Inl (ExecutionError
                     (''condition in '' @ quote @ ''if'' @ quote @ '' is not boolean''))))
     | Binary lhs b rhs \<Rightarrow>
         and_then (evaluate n h env lhs out) (\<lambda>out (_, l).
         and_then (evaluate n h env rhs out) (\<lambda>out (_, r).
           case (l, r) of
             (Literal x, Literal y) \<Rightarrow>
               (case operate b x y of
                  Inl e \<Rightarrow> Some (out, Inl e)
                | Inr z \<Rightarrow> Some (out, Inr (env, Literal z)))
           | _ \<Rightarrow> Some (out, Inl (invalid_operands h b l r))))
     | Call callee arguments \<Rightarrow>
         and_then (evaluate n h env callee out) (\<lambda>out (_, f).
           case f of
             Literal x \<Rightarrow>
               Some (out, Inl (ExecutionError (quote @ str_scalar x @ quote @ '' is not callable'')))
           | Closure body parameters e s \<Rightarrow>
               if length arguments \<noteq> length parameters
               then Some (out, Inl (ExecutionError
                      (quote @ str_Term h (Function body parameters) @ quote @ '' called with ''
                       @ str_int (int (length arguments)) @ '' arguments'')))
               else
                 and_then (values_of (evaluate n h env) arguments out) (\<lambda>out vs.
                   let params = dict_of (zip parameters vs);
                       call_env = with_values (closure_env f) params
                   in evaluate n h call_env body out))
     | Print val \<Rightarrow>
         and_then (evaluate n h env val out) (\<lambda>out (_, v).
           case str_Value h v of
             Inl e \<Rightarrow> Some (out, Inl e)
           | Inr text \<Rightarrow> Some (out @ text, Inr (env, v))))"


section \<open>Inputs and predicates of the properties\<close>

text \<open>
  Two hosts. In \<open>module_host\<close> the module was imported, so the global \<open>args\<close> is not
  defined; in \<open>script_host\<close> the file runs as a script on \<open>fib.json\<close>, and \<open>args\<close> is the
  namespace that \<open>argparse\<close> returned. The \<open>repr\<close> and \<open>indent\<close> chosen here agree with
  Python on a string without quotes, backslashes and control characters, and on a text
  of one line that is not blank.
\<close>

definition module_host :: host where
  "module_host = \<lparr>repr = (\<lambda>s. quote @ s @ quote), indent = (\<lambda>text prefix. prefix @ text),
     global_args = None, id_of = (\<lambda>v. 0x7f3a2c1b4d50)\<rparr>"

definition script_host :: host where
  "script_host = module_host
     \<lparr>global_args := Some (''Namespace(file=PosixPath('' @ quote @ ''fib.json'' @ quote @ ''))'')\<rparr>"



text \<open>\<open>let f = fn (n) => { if n == 0 { 1 } else { n * f(n - 1) } }; f(5)\<close>\<close>

definition factorial_program :: Term where
  "factorial_program =
     Let' ''f''
       (Function
          (If' (Binary (Var ''n'') EQ (Int' 0))
               (Int' 1)
               (Binary (Var ''n'') MUL (Call (Var ''f'') [Binary (Var ''n'') SUB (Int' 1)])))
          [''n''])
       (Call (Var ''f'') [Int' 5])"


text \<open>
  The rule of the specification for a side of a \<open>Binary\<close>: it is wrapped iff it is itself
  a \<open>Binary\<close> whose operator has a strictly smaller precedence; \<open>side_text\<close> is the text of
  a side under that rule.
\<close>

definition parenthesised :: "BinaryOp \<Rightarrow> Term \<Rightarrow> bool" where
  "parenthesised b side =
     (case side of Binary l' b' r' \<Rightarrow> precedence (op_value b') < precedence (op_value b) | _ \<Rightarrow> False)"

definition side_text :: "host \<Rightarrow> BinaryOp \<Rightarrow> Term \<Rightarrow> string" where
  "side_text h b side =
     (if parenthesised b side then ''('' @ str_Term h side @ '')'' else str_Term h side)"

text \<open>
  The terms that hand back the \<open>Env\<close> they were given: neither a \<open>Let\<close> nor a \<open>Call\<close>, and
  for an \<open>If\<close> both branches are such terms.
\<close>

fun keeps_env :: "Term \<Rightarrow> bool" where
  "keeps_env (Let' name val next) = False"
| "keeps_env (Call callee arguments) = False"
| "keeps_env (If' condition then' otherwise) = (keeps_env then' \<and> keeps_env otherwise)"
| "keeps_env t = True"








section \<open>Auxiliary facts\<close>

lemmas table_defs = operate_def op_cases_def on_ints_def on_strs_def on_bools_def

lemma operate_div:
  "operate DIV (IntX a) (IntX b) = (if b = 0 then Inl ZeroDivisionError else Inr (IntX (a div b)))"
  by (simp add: table_defs)

lemma operate_rem:
  "operate REM (IntX a) (IntX b) = (if b = 0 then Inl ZeroDivisionError else Inr (IntX (a mod b)))"
  by (simp add: table_defs)

lemma and_then_Some:
  "and_then m f = Some r \<longleftrightarrow>
     (\<exists>out e. m = Some (out, Inl e) \<and> r = (out, Inl e)) \<or> (\<exists>out x. m = Some (out, Inr x) \<and> f out x = Some r)"
  by (auto simp add: and_then_def split: option.splits sum.splits prod.splits)

section \<open>Division by zero\<close>

text \<open>
  C1, as the code has it. When the operator is \<open>/\<close> or \<open>%\<close> and both operands evaluate
  to integer literals, the right one to 0, the evaluation of the \<open>Binary\<close> term ends with
  Python's own \<open>ZeroDivisionError\<close>, raised by \<open>//\<close> or \<open>%\<close>; it is not an
  \<open>ExecutionError\<close>. The text printed by the operands stays printed.
\<close>

theorem division_by_zero_raises_host_error:
  assumes "b = DIV \<or> b = REM"
    and "evaluate n h env lhs out = Some (out1, Inr (e1, Literal (IntX a)))"
    and "evaluate n h env rhs out1 = Some (out2, Inr (e2, Literal (IntX 0)))"
  shows "evaluate (Suc n) h env (Binary lhs b rhs) out = Some (out2, Inl ZeroDivisionError)"
  using assms by (auto simp add: and_then_def operate_div operate_rem)

theorem division_by_zero_raises_host_error_witness:
  "evaluate (Suc 1) module_host global_env (Binary (Int' 7) REM (Int' 0)) []
     = Some ([], Inl ZeroDivisionError)"
  using division_by_zero_raises_host_error
    [of REM 1 module_host global_env "Int' 7" "[]" "[]" global_env 7 "Int' 0" "[]" global_env]
  by simp

text \<open>
  C1 as the specification states it fails: \<open>1 / 0\<close> in the initial environment does not
  end with an \<open>ExecutionError\<close>.
\<close>

theorem division_by_zero_counterexample:
  "evaluate 2 module_host global_env (Binary (Int' 1) DIV (Int' 0)) [] = Some ([], Inl ZeroDivisionError)"
  by (simp add: eval_nat_numeral and_then_def operate_div)

section \<open>The condition of an \<open>If\<close>\<close>

text \<open>
  C2. When the condition of an \<open>If\<close> evaluates to a value that is neither \<open>Literal(True)\<close>
  nor \<open>Literal(False)\<close> (an integer, a string, a closure), the evaluation raises the
  \<open>ExecutionError\<close> with the message "condition in 'if' is not boolean" and evaluates
  neither branch.
\<close>

theorem if_condition_not_boolean:
  assumes "evaluate n h env condition out = Some (out1, Inr (e1, cond))"
    and "cond \<noteq> Literal (BoolX True)" and "cond \<noteq> Literal (BoolX False)"
  shows "evaluate (Suc n) h env (If' condition then' otherwise) out =
     Some (out1, Inl (ExecutionError (''condition in '' @ quote @ ''if'' @ quote @ '' is not boolean'')))"
  using assms by (auto simp add: and_then_def split: Value.splits scalar.splits bool.splits)

theorem if_condition_not_boolean_witness:
  "evaluate (Suc 1) module_host global_env (If' (Int' 1) (Int' 2) (Int' 3)) [] =
     Some ([], Inl (ExecutionError (''condition in '' @ quote @ ''if'' @ quote @ '' is not boolean'')))"
  using if_condition_not_boolean
    [of 1 module_host global_env "Int' 1" "[]" "[]" global_env "Literal (IntX 1)" "Int' 2" "Int' 3"]
  by simp

section \<open>Equality of literals\<close>

text \<open>
  C3, as the code has it. \<open>==\<close> and \<open>!=\<close> on two \<open>Literal\<close>s compare the scalars with
  Python's \<open>==\<close>: two strings are equal iff they are the same string, a string never
  equals an int or a bool, and ints and bools are compared as numbers, \<open>True\<close> counting as
  1 and \<open>False\<close> as 0. \<open>!=\<close> yields the negation.
\<close>

theorem literal_equality_is_python_equality:
  assumes "evaluate n h env lhs out = Some (out1, Inr (e1, Literal x))"
    and "evaluate n h env rhs out1 = Some (out2, Inr (e2, Literal y))"
  shows "evaluate (Suc n) h env (Binary lhs EQ rhs) out
           = Some (out2, Inr (env, Literal (BoolX (py_eq x y))))
    \<and> evaluate (Suc n) h env (Binary lhs NEQ rhs) out
           = Some (out2, Inr (env, Literal (BoolX (\<not> py_eq x y))))
    \<and> py_eq x y = (case (x, y) of
         (StrX s, StrX t) \<Rightarrow> s = t
       | (IntX a, IntX b) \<Rightarrow> a = b
       | (BoolX p, BoolX q) \<Rightarrow> p = q
       | (IntX a, BoolX q) \<Rightarrow> a = (if q then 1 else 0)
       | (BoolX p, IntX b) \<Rightarrow> (if p then 1 else 0) = b
       | (StrX s, _) \<Rightarrow> False
       | (_, StrX t) \<Rightarrow> False)"
  using assms by (auto simp add: and_then_def table_defs split: scalar.splits)

theorem literal_equality_is_python_equality_witness:
  "evaluate (Suc 1) module_host global_env (Binary (Int' 2) EQ (Str ''2'')) []
     = Some ([], Inr (global_env, Literal (BoolX False)))
   \<and> evaluate (Suc 1) module_host global_env (Binary (Int' 2) NEQ (Str ''2'')) []
     = Some ([], Inr (global_env, Literal (BoolX True)))"
  using literal_equality_is_python_equality
    [of 1 module_host global_env "Int' 2" "[]" "[]" global_env "IntX 2" "Str ''2''" "[]" global_env "StrX ''2''"]
  by simp

text \<open>
  C3 as the specification states it fails: \<open>1 == true\<close> in the initial environment
  yields \<open>Literal(True)\<close>, although one operand is an int and the other a bool.
\<close>

theorem int_equals_bool_counterexample:
  "evaluate 2 module_host global_env (Binary (Int' 1) EQ (Var ''true'')) []
     = Some ([], Inr (global_env, Literal (BoolX True)))"
  by (simp add: eval_nat_numeral and_then_def table_defs global_env_def)

section \<open>Integer arithmetic\<close>

text \<open>
  C10. On operands that evaluate to the integer literals \<open>a\<close> and \<open>b\<close>, \<open>+\<close>, \<open>-\<close> and \<open>*\<close>
  yield the exact sum, difference and product in the unbounded integers, and for a
  divisor other than 0, \<open>/\<close> yields the floor of the rational quotient and \<open>%\<close> the
  remainder that goes with it; no operand or result is reduced to a bit width.
\<close>

theorem integer_arithmetic_exact:
  assumes "evaluate n h env lhs out = Some (out1, Inr (e1, Literal (IntX a)))"
    and "evaluate n h env rhs out1 = Some (out2, Inr (e2, Literal (IntX b)))"
  shows "evaluate (Suc n) h env (Binary lhs ADD rhs) out = Some (out2, Inr (env, Literal (IntX (a + b))))
    \<and> evaluate (Suc n) h env (Binary lhs SUB rhs) out = Some (out2, Inr (env, Literal (IntX (a - b))))
    \<and> evaluate (Suc n) h env (Binary lhs MUL rhs) out = Some (out2, Inr (env, Literal (IntX (a * b))))
    \<and> (b \<noteq> 0 \<longrightarrow>
         evaluate (Suc n) h env (Binary lhs DIV rhs) out
           = Some (out2, Inr (env, Literal (IntX \<lfloor>real_of_int a / real_of_int b\<rfloor>)))
       \<and> evaluate (Suc n) h env (Binary lhs REM rhs) out
           = Some (out2, Inr (env, Literal (IntX (a - b * \<lfloor>real_of_int a / real_of_int b\<rfloor>)))))"
  using assms
  by (auto simp add: and_then_def table_defs floor_divide_of_int_eq minus_mult_div_eq_mod)

theorem integer_arithmetic_exact_witness:
  "evaluate (Suc 1) module_host global_env
      (Binary (Int' 170141183460469231731687303715884105727) MUL (Int' (- 3))) []
     = Some ([], Inr (global_env, Literal (IntX (- 510423550381407695195061911147652317181))))
   \<and> evaluate (Suc 1) module_host global_env
      (Binary (Int' 170141183460469231731687303715884105727) DIV (Int' (- 3))) []
     = Some ([], Inr (global_env, Literal (IntX (- 56713727820156410577229101238628035243))))"
  using integer_arithmetic_exact
    [of 1 module_host global_env "Int' 170141183460469231731687303715884105727" "[]" "[]" global_env
        170141183460469231731687303715884105727 "Int' (- 3)" "[]" global_env "- 3"]
  by simp

section \<open>Parentheses in \<open>Binary.__str__\<close>\<close>

lemma precedence_below_99: "precedence (op_value b) < 99"
  by (cases b) simp_all

lemma wrap_side:
  "(if side_precedence side < precedence (op_value b) then ''('' @ s @ '')'' else s)
     = (if parenthesised b side then ''('' @ s @ '')'' else s)"
  using precedence_below_99[of b] by (cases side) (simp_all add: parenthesised_def)

text \<open>
  C8. The text of \<open>Binary(lhs, op, rhs)\<close> is the text of the left side, a space, the
  token, a space and the text of the right side, where a side is put in parentheses iff
  it is itself a \<open>Binary\<close> whose operator's precedence is strictly less than that of
  \<open>op\<close>; a side that is not a \<open>Binary\<close> is never put in parentheses (the 99 that the code
  gives it is above every precedence of the enum).
\<close>

theorem binary_str_parenthesises_lower_precedence:
  "str_Term h (Binary lhs b rhs)
     = side_text h b lhs @ '' '' @ token (op_value b) @ '' '' @ side_text h b rhs"
  by (simp add: Let_def wrap_side side_text_def del: side_precedence.simps)

section \<open>Closures: self-reference and lexical capture\<close>

text \<open>
  C4. When the value of a \<open>Let\<close> evaluates to a closure, \<open>next\<close> is evaluated in the
  environment of the patched closure, which is the extended environment and binds the
  name to the patched closure itself; the closure keeps its function. So the body can
  call the closure by that name: the factorial program yields \<open>Literal(120)\<close> and prints
  nothing, on every host and at every depth of at least 25 nested calls.
\<close>

theorem let_binds_closure_to_itself:
  "(evaluate n h env val out = Some (out1, Inr (e1, Closure f ps ce s)) \<longrightarrow>
      (let new_val = Closure f ps (with_values env (dict_of [(name, Closure f ps ce s)])) (Some name)
       in evaluate (Suc n) h env (Let' name val next) out
            = evaluate n h (closure_env new_val) next out1
          \<and> map_of (closure_env new_val) name = Some new_val))
   \<and> (\<exists>env'. evaluate (25 + k) h global_env factorial_program []
                = Some ([], Inr (env', Literal (IntX 120))))"
proof (intro conjI impI)
  assume "evaluate n h env val out = Some (out1, Inr (e1, Closure f ps ce s))"
  then show "let new_val = Closure f ps (with_values env (dict_of [(name, Closure f ps ce s)])) (Some name)
       in evaluate (Suc n) h env (Let' name val next) out
            = evaluate n h (closure_env new_val) next out1
          \<and> map_of (closure_env new_val) name = Some new_val"
    by (simp add: and_then_def Let_def AList.update_conv')
next
  show "\<exists>env'. evaluate (25 + k) h global_env factorial_program []
                = Some ([], Inr (env', Literal (IntX 120)))"
    unfolding factorial_program_def global_env_def
    by (simp add: eval_nat_numeral and_then_def with_values_def dict_of_def table_defs quote_def)
qed

theorem let_binds_closure_to_itself_witness:
  "evaluate (Suc 1) module_host global_env (Let' ''g'' (Function (Int' 1) []) (Var ''g'')) []
     = Some ([], Inr ([(''true'', Literal (BoolX True)), (''false'', Literal (BoolX False)),
                       (''g'', Closure (Int' 1) []
                                 [(''true'', Literal (BoolX True)), (''false'', Literal (BoolX False)),
                                  (''g'', Closure (Int' 1) [] global_env None)] (Some ''g''))],
                      Closure (Int' 1) []
                        [(''true'', Literal (BoolX True)), (''false'', Literal (BoolX False)),
                         (''g'', Closure (Int' 1) [] global_env None)] (Some ''g'')))"
  using let_binds_closure_to_itself
    [of 1 module_host global_env "Function (Int' 1) []" "[]" "[]" global_env "Int' 1" "[]" global_env
        None "''g''" "Var ''g''" 0]
  by (simp add: with_values_def dict_of_def global_env_def Let_def)


section \<open>The \<open>Env\<close> that \<open>evaluate\<close> returns\<close>

lemma binary_returns:
  "(case (l, r) of
      (Literal x, Literal y) \<Rightarrow>
        (case operate b x y of Inl e \<Rightarrow> Some (out, Inl e) | Inr z \<Rightarrow> Some (out, Inr (env, Literal z)))
    | _ \<Rightarrow> Some (out, Inl E)) = Some (out', Inr (env', v)) \<Longrightarrow> env' = env"
  by (cases l; cases r) (auto split: sum.splits)

lemma print_returns:
  "(case str_Value h x of Inl e \<Rightarrow> Some (out, Inl e) | Inr text \<Rightarrow> Some (out @ text, Inr (env, x)))
     = Some (out', Inr (env', v)) \<Longrightarrow> env' = env"
  by (auto split: sum.splits)

lemma if_dispatch:
  "(case cond of Literal (BoolX True) \<Rightarrow> A | Literal (BoolX False) \<Rightarrow> B | _ \<Rightarrow> C)
     = (if cond = Literal (BoolX True) then A else if cond = Literal (BoolX False) then B else C)"
  by (auto split: Value.splits scalar.splits bool.splits)

text \<open>
  C6, as the code has it. A successful evaluation of a term that is neither a \<open>Let\<close> nor
  a \<open>Call\<close>, and whose \<open>If\<close> branches are such terms in turn, returns the \<open>Env\<close> it was
  given. (A \<open>Let\<close> and a \<open>Call\<close> return what the evaluation of \<open>next\<close>, or of the function
  body, returns.)
\<close>

theorem returned_env_is_input_env:
  "evaluate n h env t out = Some (out', Inr (env', v)) \<Longrightarrow> keeps_env t \<Longrightarrow> env' = env"
proof (induction n arbitrary: t out out' v)
  case 0
  then show ?case by simp
next
  case (Suc n)
  show ?case
  proof (cases t)
    case (If' c a b)
    with Suc.prems have "\<exists>o1. evaluate n h env a o1 = Some (out', Inr (env', v))
        \<or> evaluate n h env b o1 = Some (out', Inr (env', v))"
      by (auto simp add: and_then_Some if_dispatch split: prod.splits if_splits)
    moreover from Suc.prems(2) If' have "keeps_env a" "keeps_env b" by simp_all
    ultimately show ?thesis
      using Suc.IH by blast
  next
    case (Binary l b r)
    with Suc.prems obtain o2 x y where
      "(case (x, y) of
          (Literal x, Literal y) \<Rightarrow>
            (case operate b x y of Inl e \<Rightarrow> Some (o2, Inl e) | Inr z \<Rightarrow> Some (o2, Inr (env, Literal z)))
        | _ \<Rightarrow> Some (o2, Inl (invalid_operands h b x y))) = Some (out', Inr (env', v))"
      by (auto simp add: and_then_Some split: prod.splits)
    then show ?thesis
      by (rule binary_returns)
  next
    case (Print p)
    with Suc.prems obtain o1 x where
      "(case str_Value h x of Inl e \<Rightarrow> Some (o1, Inl e) | Inr text \<Rightarrow> Some (o1 @ text, Inr (env, x)))
        = Some (out', Inr (env', v))"
      by (auto simp add: and_then_Some split: prod.splits)
    then show ?thesis
      by (rule print_returns)
  qed (use Suc.prems in \<open>auto split: option.splits\<close>)
qed

theorem returned_env_is_input_env_witness:
  "evaluate 3 module_host global_env (If' (Var ''true'') (Print (Int' 1)) (Int' 2)) []
     = Some (''1'', Inr (global_env, Literal (IntX 1)))
   \<and> keeps_env (If' (Var ''true'') (Print (Int' 1)) (Int' 2))
   \<and> global_env = global_env"
proof -
  have run: "evaluate 3 module_host global_env (If' (Var ''true'') (Print (Int' 1)) (Int' 2)) []
     = Some (''1'', Inr (global_env, Literal (IntX 1)))"
    by (simp add: eval_nat_numeral and_then_def global_env_def str_int_def)
  have keeps: "keeps_env (If' (Var ''true'') (Print (Int' 1)) (Int' 2))"
    by simp
  from returned_env_is_input_env [OF run keeps] run keeps show ?thesis
    by simp
qed

text \<open>
  C6 as the specification states it fails: \<open>let x = 1; x\<close> evaluated in the initial
  environment returns the extended environment, which also binds \<open>x\<close>.
\<close>

theorem let_returns_extended_env_counterexample:
  "evaluate 2 module_host global_env (Let' ''x'' (Int' 1) (Var ''x'')) []
     = Some ([], Inr (global_env @ [(''x'', Literal (IntX 1))], Literal (IntX 1)))
   \<and> global_env @ [(''x'', Literal (IntX 1))] \<noteq> global_env"
  by (simp add: eval_nat_numeral and_then_def with_values_def dict_of_def global_env_def)

section \<open>\<open>str\<close> of a closure\<close>

text \<open>
  C7 fails on the code. \<open>Closure.__str__\<close> formats the name \<open>args\<close>, which is not the
  parameter list of the closure but a global of the module. When the module is imported
  the name is not defined and rendering the closure \<open>fn (a) => a\<close> raises \<open>NameError\<close>;
  when the file runs as a script the parentheses hold the command line namespace and not
  the parameter \<open>a\<close>.
\<close>

theorem closure_str_reads_global_args:
  "str_Closure module_host (Closure (Var ''a'') [''a''] global_env None) = Inl (NameError ''args'')
   \<and> str_Closure script_host (Closure (Var ''a'') [''a''] global_env None)
       = Inr (''<Closure#1b4d50 fn (Namespace(file=PosixPath('' @ quote @ ''fib.json'' @ quote @ '')))>'')"
  by (simp add: str_Closure_def module_host_def script_host_def hex_def Let_def)

section \<open>Determinism\<close>




























end
